theory Spec2Isabelle
  imports Main
begin

section \<open>JavaScript values shared by the modules\<close>

text \<open>
  Strings are \<^typ>\<open>string\<close>; a character stands for one code unit below 256.
  A JavaScript \<^verbatim>\<open>Set\<close> of strings is a duplicate-free list in insertion order,
  which is the order \<^verbatim>\<open>[...set]\<close> yields. Record fields are global constants in
  HOL, so a field carries its record's prefix where two objects of the source share a
  field name (\<^verbatim>\<open>skills\<close>, \<^verbatim>\<open>name\<close>, \<^verbatim>\<open>hasApi\<close>, ...).
\<close>

definition set_add :: "'a \<Rightarrow> 'a list \<Rightarrow> 'a list" where
  \<comment> \<open>\<^verbatim>\<open>set.add(x)\<close>: a value already present keeps its place.\<close>
  "set_add x xs = (if x \<in> set xs then xs else xs @ [x])"

definition add_all :: "'a list \<Rightarrow> 'a list \<Rightarrow> 'a list" where
  \<comment> \<open>\<^verbatim>\<open>xs.forEach((x) => set.add(x))\<close>\<close>
  "add_all acc xs = foldl (\<lambda>a x. set_add x a) acc xs"

definition new_Set :: "'a list \<Rightarrow> 'a list" where
  \<comment> \<open>\<^verbatim>\<open>[...new Set(xs)]\<close>: first occurrences, in order.\<close>
  "new_Set xs = add_all [] xs"

definition startsWith :: "string \<Rightarrow> string \<Rightarrow> bool" where
  \<comment> \<open>\<^verbatim>\<open>s.startsWith(p)\<close>\<close>
  "startsWith s p = (take (length p) s = p)"

fun indexOf :: "string \<Rightarrow> string \<Rightarrow> nat option" where
  \<comment> \<open>\<^verbatim>\<open>s.indexOf(p)\<close>; \<open>None\<close> is the result \<^verbatim>\<open>-1\<close>.\<close>
  "indexOf [] p = (if p = [] then Some 0 else None)"
| "indexOf (c # cs) p =
     (if startsWith (c # cs) p then Some 0 else map_option Suc (indexOf cs p))"

definition includesStr :: "string \<Rightarrow> string \<Rightarrow> bool" where
  \<comment> \<open>\<^verbatim>\<open>s.includes(p)\<close> on strings\<close>
  "includesStr s p = (indexOf s p \<noteq> None)"

definition endsWith :: "string \<Rightarrow> string \<Rightarrow> bool" where
  "endsWith s p = (length p \<le> length s \<and> drop (length s - length p) s = p)"

definition removeFirst :: "string \<Rightarrow> string \<Rightarrow> string" where
  \<comment> \<open>\<^verbatim>\<open>s.replace(p, '')\<close> with a string pattern: the first occurrence only.\<close>
  "removeFirst s p =
     (case indexOf s p of None \<Rightarrow> s | Some i \<Rightarrow> take i s @ drop (i + length p) s)"

subsection \<open>The file system and the platform\<close>

text \<open>
  The project directory is a tree of files and directories; a path is the list of its
  segments below the project directory (\<^verbatim>\<open>'src/Domain'\<close> is \<open>[''src'', ''Domain'']\<close>).
  Every entry that exists can be read. \<^verbatim>\<open>JSON.parse\<close> and the \<^verbatim>\<open>fast-glob\<close> package
  are not part of the repository, they are fields of the platform: \<open>JSON_parse\<close> returns
  \<open>None\<close> for the SyntaxError; \<open>globAvailable\<close> says that the package can be imported,
  and \<open>globMatches pattern path\<close> that it reports the file at \<open>path\<close> for the pattern
  under the ignore list of \<^verbatim>\<open>glob\<close>. What it returns are files of the directory.
\<close>

datatype js_error = SyntaxError | TypeError | IOError

datatype node = File string | Dir "(string \<times> node) list"

datatype json =
    JNull
  | JBool bool
  | JNumber int
  | JString string
  | JArray "json list"
  | JObject "(string \<times> json) list"

record platform =
  JSON_parse :: "string \<Rightarrow> json option"
  globAvailable :: bool
  globMatches :: "string \<Rightarrow> string list \<Rightarrow> bool"

fun lookup :: "node \<Rightarrow> string list \<Rightarrow> node option" where
  "lookup n [] = Some n"
| "lookup (File _) (s # ss) = None"
| "lookup (Dir entries) (s # ss) =
     (case map_of entries s of None \<Rightarrow> None | Some n \<Rightarrow> lookup n ss)"

definition fileExists :: "node \<Rightarrow> string list \<Rightarrow> bool" where
  \<comment> \<open>\<^verbatim>\<open>fs.access\<close> succeeds: for a file and for a directory alike.\<close>
  "fileExists root p = (lookup root p \<noteq> None)"

definition dirExists :: "node \<Rightarrow> string list \<Rightarrow> bool" where
  "dirExists root p = (case lookup root p of Some (Dir _) \<Rightarrow> True | _ \<Rightarrow> False)"

definition readFile :: "node \<Rightarrow> string list \<Rightarrow> js_error + string" where
  "readFile root p = (case lookup root p of Some (File c) \<Rightarrow> Inr c | _ \<Rightarrow> Inl IOError)"

definition readFileOrEmpty :: "node \<Rightarrow> string list \<Rightarrow> string" where
  \<comment> \<open>\<^verbatim>\<open>readFile(...).catch(() => '')\<close>\<close>
  "readFileOrEmpty root p = (case readFile root p of Inl _ \<Rightarrow> [] | Inr c \<Rightarrow> c)"

definition readdir :: "node \<Rightarrow> string list \<Rightarrow> js_error + string list" where
  "readdir root p =
     (case lookup root p of Some (Dir entries) \<Rightarrow> Inr (map fst entries) | _ \<Rightarrow> Inl IOError)"

definition readJson :: "platform \<Rightarrow> node \<Rightarrow> string list \<Rightarrow> js_error + json" where
  "readJson pf root p =
     (case readFile root p of
        Inl e \<Rightarrow> Inl e
      | Inr c \<Rightarrow> (case JSON_parse pf c of None \<Rightarrow> Inl SyntaxError | Some j \<Rightarrow> Inr j))"

fun allFiles :: "node \<Rightarrow> string list list" where
  \<comment> \<open>The paths of the files below a node, in the order of the directory listings.\<close>
  "allFiles (File _) = [[]]"
| "allFiles (Dir entries) =
     concat (map (\<lambda>e. map (\<lambda>p. fst e # p) (allFiles (snd e))) entries)"

definition glob :: "platform \<Rightarrow> node \<Rightarrow> string \<Rightarrow> nat \<Rightarrow> string list list" where
  \<comment> \<open>\<^verbatim>\<open>results.slice(0, limit)\<close>, and \<^verbatim>\<open>[]\<close> in the \<^verbatim>\<open>catch\<close> (the package is
      missing, or the project path is not a directory).\<close>
  "glob pf root pattern limit =
     (case root of
        File _ \<Rightarrow> []
      | Dir _ \<Rightarrow>
          if globAvailable pf then take limit (filter (globMatches pf pattern) (allFiles root))
          else [])"

definition andThen :: "'e + 'a \<Rightarrow> ('a \<Rightarrow> 'e + 'b) \<Rightarrow> 'e + 'b" where
  \<comment> \<open>An exception thrown by the first part ends the function.\<close>
  "andThen m f = (case m of Inl e \<Rightarrow> Inl e | Inr x \<Rightarrow> f x)"

section \<open>analyzer.js: the recommendation engine\<close>

text \<open>
  The context object. Every field may be absent (\<open>None\<close> is \<^verbatim>\<open>undefined\<close>), and
  the context itself may be \<^verbatim>\<open>undefined\<close>, in which case reading a field of it
  throws a TypeError.
\<close>

record "context" =
  ctx_projectType :: "string option"
  ctx_techStack :: "string list option"
  ctx_architecture :: "string list option"
  ctx_concerns :: "string list option"
  ctx_targetUsers :: "string option"
  ctx_hasApi :: "bool option"

text \<open>
  What calling \<^verbatim>\<open>rule.condition(context)\<close> does: it throws, or it returns a value
  of which the engine reads the truthiness only.
\<close>

datatype cond_result = Throws | Returns bool

text \<open>
  A rule. \<open>conditionSource\<close> is \<^verbatim>\<open>rule.condition.toString()\<close>, the source text
  of the arrow function. The lists and the reason may be missing from the object.
\<close>

record 'c rule =
  condition :: "'c \<Rightarrow> cond_result"
  conditionSource :: string
  rule_skills :: "string list option"
  rule_agents :: "string list option"
  rule_hooks :: "string list option"
  rule_reason :: "string option"

text \<open>The accumulator of \<^verbatim>\<open>analyzeProject\<close>, and the shape of its result.\<close>

record recommendations =
  skills :: "string list"
  agents :: "string list"
  hooks :: "string list"
  reasons :: "string list"

definition always_true_source :: string where
  "always_true_source = ''() => true''"

definition add_opt :: "string list \<Rightarrow> string list option \<Rightarrow> string list" where
  \<comment> \<open>\<^verbatim>\<open>if (rule.xs) { rule.xs.forEach((x) => set.add(x)) }\<close>\<close>
  "add_opt acc xs = (case xs of None \<Rightarrow> acc | Some ys \<Rightarrow> add_all acc ys)"

definition push_reason :: "'c rule \<Rightarrow> string list \<Rightarrow> string list" where
  \<comment> \<open>\<^verbatim>\<open>if (rule.reason && rule.condition.toString() !== '() => true') push\<close>;
      the empty string is falsy.\<close>
  "push_reason r rs =
     (case rule_reason r of
        None \<Rightarrow> rs
      | Some t \<Rightarrow> if t \<noteq> [] \<and> conditionSource r \<noteq> always_true_source then rs @ [t] else rs)"

definition ruleBody :: "'c rule \<Rightarrow> 'c \<Rightarrow> recommendations \<Rightarrow> unit + recommendations" where
  \<comment> \<open>The body of the \<^verbatim>\<open>try\<close> block; \<open>Inl\<close> is the exception thrown by the condition.\<close>
  "ruleBody r ctx recs =
     (case condition r ctx of
        Throws \<Rightarrow> Inl ()
      | Returns b \<Rightarrow>
          if b then
            Inr \<lparr>skills = add_opt (skills recs) (rule_skills r),
                 agents = add_opt (agents recs) (rule_agents r),
                 hooks = add_opt (hooks recs) (rule_hooks r),
                 reasons = push_reason r (reasons recs)\<rparr>
          else Inr recs)"

fun applyRules :: "'c rule list \<Rightarrow> 'c \<Rightarrow> recommendations \<Rightarrow> recommendations" where
  "applyRules [] ctx recs = recs"
| "applyRules (r # rs) ctx recs =
     (case ruleBody r ctx recs of
        Inl _ \<Rightarrow> applyRules rs ctx recs
      | Inr recs' \<Rightarrow> applyRules rs ctx recs')"

definition analyzeWith :: "'c rule list \<Rightarrow> 'c \<Rightarrow> recommendations" where
  \<comment> \<open>\<^verbatim>\<open>analyzeProject\<close> over a given rule table.\<close>
  "analyzeWith rules ctx =
     (let recs = applyRules rules ctx \<lparr>skills = [], agents = [], hooks = [], reasons = []\<rparr>
      in \<lparr>skills = skills recs, agents = agents recs, hooks = hooks recs,
          reasons = new_Set (reasons recs)\<rparr>)"

text \<open>The production rule table, in declaration order.\<close>

definition includes_opt :: "string list option \<Rightarrow> string \<Rightarrow> bool" where
  \<comment> \<open>The truthiness of \<^verbatim>\<open>xs?.includes(x)\<close>: \<^verbatim>\<open>undefined\<close> when \<open>xs\<close> is missing.\<close>
  "includes_opt xs x = (case xs of None \<Rightarrow> False | Some ys \<Rightarrow> x \<in> set ys)"

definition reading :: "(context \<Rightarrow> bool) \<Rightarrow> context option \<Rightarrow> cond_result" where
  \<comment> \<open>A condition \<^verbatim>\<open>(ctx) => ... ctx.field ...\<close>: a TypeError when \<open>ctx\<close> is \<^verbatim>\<open>undefined\<close>.\<close>
  "reading f ctx = (case ctx of None \<Rightarrow> Throws | Some c \<Rightarrow> Returns (f c))"

definition mkRule ::
  "('c \<Rightarrow> cond_result) \<Rightarrow> string \<Rightarrow> string list \<Rightarrow> string list \<Rightarrow> string list \<Rightarrow> string \<Rightarrow> 'c rule" where
  "mkRule c src sk ag hk rs =
     \<lparr>condition = c, conditionSource = src, rule_skills = Some sk, rule_agents = Some ag,
      rule_hooks = Some hk, rule_reason = Some rs\<rparr>"

definition recommendationRules :: "context option rule list" where
  "recommendationRules = [
    mkRule (reading (\<lambda>c. includes_opt (ctx_architecture c) ''clean-architecture''))
      (''(ctx) => ctx.architecture?.includes('clean-architecture')'')
      [''refactoring-advisor'', ''naming-conventions'', ''code-reviewer'']
      [''architect'', ''refactorer'']
      [''layer-violation-blocker'']
      ''Clean Architecture requires strict layer boundaries and naming conventions'',
    mkRule (reading (\<lambda>c. includes_opt (ctx_architecture c) ''vertical-slice''))
      (''(ctx) => ctx.architecture?.includes('vertical-slice')'')
      [''refactoring-advisor'', ''code-reviewer'']
      [''architect'']
      []
      ''Vertical Slice Architecture benefits from feature-focused organization'',
    mkRule (reading (\<lambda>c. includes_opt (ctx_architecture c) ''cqrs''))
      (''(ctx) => ctx.architecture?.includes('cqrs')'')
      [''code-reviewer'', ''naming-conventions'']
      [''architect'']
      []
      ''CQRS pattern requires clear separation of commands and queries'',
    mkRule (reading (\<lambda>c. includes_opt (ctx_architecture c) ''microservices''))
      (''(ctx) => ctx.architecture?.includes('microservices')'')
      [''api-design-reviewer'', ''logging-standards'', ''error-handling-patterns'']
      [''architect'', ''debugger'']
      []
      ''Microservices require robust API design and observability'',
    mkRule (reading (\<lambda>c. includes_opt (ctx_concerns c) ''data-integrity''))
      (''(ctx) => ctx.concerns?.includes('data-integrity')'')
      [''database-reviewer'', ''test-writer'', ''error-handling-patterns'']
      [''test-runner'', ''migrator'']
      [''quality-gate'']
      ''Data integrity requires comprehensive testing and safe migrations'',
    mkRule (reading (\<lambda>c. includes_opt (ctx_concerns c) ''security''))
      (''(ctx) => ctx.concerns?.includes('security')'')
      [''security-auditor'', ''dependency-auditor'', ''error-handling-patterns'']
      [''security-auditor'']
      [''secrets-scanner'', ''quality-gate'']
      ''Security concerns require proactive vulnerability scanning'',
    mkRule (reading (\<lambda>c. includes_opt (ctx_concerns c) ''performance''))
      (''(ctx) => ctx.concerns?.includes('performance')'')
      [''performance-analyzer'', ''database-reviewer'']
      [''debugger'']
      []
      ''Performance optimization needs systematic analysis'',
    mkRule (reading (\<lambda>c. includes_opt (ctx_concerns c) ''accessibility''))
      (''(ctx) => ctx.concerns?.includes('accessibility')'')
      [''accessibility-auditor'', ''ux-reviewer'']
      []
      []
      ''Accessibility requires WCAG compliance validation'',
    mkRule (reading (\<lambda>c. includes_opt (ctx_concerns c) ''user-experience''))
      (''(ctx) => ctx.concerns?.includes('user-experience')'')
      [''ux-reviewer'', ''accessibility-auditor'']
      []
      []
      ''Great UX requires usability heuristic evaluation'',
    mkRule (reading (\<lambda>c. includes_opt (ctx_concerns c) ''test-coverage''))
      (''(ctx) => ctx.concerns?.includes('test-coverage')'')
      [''test-writer'', ''code-reviewer'']
      [''test-runner'']
      [''quality-gate'']
      ''High test coverage requires systematic test writing'',
    mkRule (reading (\<lambda>c. includes_opt (ctx_concerns c) ''documentation''))
      (''(ctx) => ctx.concerns?.includes('documentation')'')
      [''doc-generator'', ''commit-msg-generator'']
      [''doc-engineer'', ''onboarder'']
      [''changelog-reminder'']
      ''Good documentation needs consistent generation and updates'',
    mkRule (reading (\<lambda>c. ctx_targetUsers c = Some ''non-technical''))
      (''(ctx) => ctx.targetUsers === 'non-technical'' @ [CHR 0x27])
      [''accessibility-auditor'', ''ux-reviewer'']
      []
      []
      ''Non-technical users need accessible, intuitive interfaces'',
    mkRule (reading (\<lambda>c. includes_opt (ctx_techStack c) ''angular'' \<or> includes_opt (ctx_techStack c) ''react'' \<or> includes_opt (ctx_techStack c) ''nextjs''))
      (''(ctx) =>'' @ [CHR 0x0A] @
       ''      ctx.techStack?.includes('angular') ||'' @ [CHR 0x0A] @
       ''      ctx.techStack?.includes('react') ||'' @ [CHR 0x0A] @
       ''      ctx.techStack?.includes('nextjs')'')
      [''accessibility-auditor'', ''ux-reviewer'', ''performance-analyzer'', ''test-writer'']
      [''test-runner'']
      [''post-edit-format'']
      ''Frontend frameworks benefit from UX validation and formatting'',
    mkRule (reading (\<lambda>c. includes_opt (ctx_techStack c) ''angular''))
      (''(ctx) => ctx.techStack?.includes('angular')'')
      [''naming-conventions'', ''test-writer'']
      [''test-runner'']
      [''pre-commit-lint'']
      ''Angular projects need strict conventions and testing'',
    mkRule (reading (\<lambda>c. includes_opt (ctx_techStack c) ''react'' \<or> includes_opt (ctx_techStack c) ''nextjs''))
      (''(ctx) => ctx.techStack?.includes('react') || ctx.techStack?.includes('nextjs')'')
      [''performance-analyzer'', ''test-writer'']
      [''test-runner'']
      [''pre-commit-lint'']
      ''React projects benefit from performance optimization'',
    mkRule (reading (\<lambda>c. includes_opt (ctx_techStack c) ''dotnet''))
      (''(ctx) => ctx.techStack?.includes('dotnet')'')
      [''naming-conventions'', ''code-reviewer'', ''test-writer'']
      [''architect'', ''test-runner'']
      [''pre-commit-lint'', ''post-edit-format'']
      ''.NET projects need consistent conventions and architecture'',
    mkRule (reading (\<lambda>c. includes_opt (ctx_techStack c) ''ef-core'' \<or> includes_opt (ctx_techStack c) ''sql''))
      (''(ctx) =>'' @ [CHR 0x0A] @
       ''      ctx.techStack?.includes('ef-core') || ctx.techStack?.includes('sql')'')
      [''database-reviewer'']
      [''migrator'']
      []
      ''Database work needs migration safety and query optimization'',
    mkRule (reading (\<lambda>c. includes_opt (ctx_techStack c) ''nodejs''))
      (''(ctx) => ctx.techStack?.includes('nodejs')'')
      [''logging-standards'', ''error-handling-patterns'', ''dependency-auditor'']
      [''debugger'']
      [''pre-commit-lint'', ''post-edit-format'']
      ''Node.js projects need good error handling and dependency management'',
    mkRule (reading (\<lambda>c. includes_opt (ctx_techStack c) ''typescript''))
      (''(ctx) => ctx.techStack?.includes('typescript')'')
      [''naming-conventions'', ''code-reviewer'']
      []
      [''pre-commit-lint'']
      ''TypeScript benefits from strict naming and type checking'',
    mkRule (reading (\<lambda>c. includes_opt (ctx_techStack c) ''python''))
      (''(ctx) => ctx.techStack?.includes('python')'')
      [''naming-conventions'', ''test-writer'', ''doc-generator'']
      [''test-runner'']
      [''pre-commit-lint'', ''post-edit-format'']
      ''Python projects need PEP8 compliance and documentation'',
    mkRule (reading (\<lambda>c. includes_opt (ctx_techStack c) ''docker'' \<or> includes_opt (ctx_techStack c) ''kubernetes''))
      (''(ctx) =>'' @ [CHR 0x0A] @
       ''      ctx.techStack?.includes('docker') || ctx.techStack?.includes('kubernetes')'')
      [''security-auditor'']
      [''architect'']
      [''secrets-scanner'']
      ''Container environments need security hardening'',
    mkRule (reading (\<lambda>c. ctx_hasApi c = Some True))
      (''(ctx) => ctx.hasApi'')
      [''api-design-reviewer'', ''doc-generator'', ''security-auditor'']
      [''doc-engineer'']
      []
      ''APIs benefit from design validation and documentation'',
    mkRule (reading (\<lambda>c. ctx_projectType c = Some ''cli-tool''))
      (''(ctx) => ctx.projectType === 'cli-tool'' @ [CHR 0x27])
      [''doc-generator'', ''error-handling-patterns'']
      [''doc-engineer'']
      []
      ''CLI tools need good documentation and error handling'',
    mkRule (reading (\<lambda>c. ctx_projectType c = Some ''monorepo''))
      (''(ctx) => ctx.projectType === 'monorepo'' @ [CHR 0x27])
      [''naming-conventions'', ''git-workflow'']
      [''architect'']
      [''branch-protection'']
      ''Monorepos need consistent conventions across packages'',
    mkRule (\<lambda>_. Returns True)
      (''() => true'')
      [''code-reviewer'', ''commit-msg-generator'', ''git-workflow'']
      [''code-reviewer'']
      [''session-context-loader'']
      ''Essential skills for any software project'']"

definition analyzeProject :: "context option \<Rightarrow> recommendations" where
  "analyzeProject ctx = analyzeWith recommendationRules ctx"

definition empty_context :: "context" where
  \<comment> \<open>The object \<^verbatim>\<open>{}\<close>.\<close>
  "empty_context =
     \<lparr>ctx_projectType = None, ctx_techStack = None, ctx_architecture = None,
      ctx_concerns = None, ctx_targetUsers = None, ctx_hasApi = None\<rparr>"

section \<open>The merge module: loading, merging, diffing and backing up a configuration\<close>

subsection \<open>Custom sections of a component file\<close>

definition nextHeadingHere :: "string \<Rightarrow> bool" where
  \<comment> \<open>The regular expression \<^verbatim>\<open>/\n## [^#]/\<close> matches at the start of the string:
      a line feed, two hashes, a space, and one more character that is not a hash.\<close>
  "nextHeadingHere s =
     (startsWith s (CHR 0x0A # ''## '') \<and> 4 < length s \<and> s ! 4 \<noteq> CHR ''#'')"


definition slice :: "string \<Rightarrow> nat \<Rightarrow> nat \<Rightarrow> string" where
  \<comment> \<open>\<^verbatim>\<open>s.slice(a, b)\<close> for indices that are not negative.\<close>
  "slice s a b = take (b - a) (drop a s)"



definition customMarkers :: "string list" where
  "customMarkers =
     [''## Project-Specific'', ''## Our Rules'', ''## Custom Rules'', ''## Project Rules'',
      ''## Local Additions'', ''## Team Conventions'', ''## Company Standards'']"




subsection \<open>Stored components and the merge\<close>

text \<open>
  A component read back from disk. \<open>sc_content\<close> is \<^verbatim>\<open>null\<close> for a skill directory
  without its file; a hook is stored without \<^verbatim>\<open>customSections\<close>, which then reads
  as \<^verbatim>\<open>undefined\<close> (\<open>None\<close>).
\<close>

record stored_component =
  sc_name :: string
  sc_content :: "string option"
  sc_customSections :: "string option"


text \<open>
  A JavaScript \<^verbatim>\<open>Map\<close> is a list of entries in insertion order with distinct keys:
  \<^verbatim>\<open>set\<close> on a key that is present replaces the value in place.
\<close>

fun map_set :: "'k \<Rightarrow> 'v \<Rightarrow> ('k \<times> 'v) list \<Rightarrow> ('k \<times> 'v) list" where
  "map_set k v [] = [(k, v)]"
| "map_set k v ((k', v') # kvs) =
     (if k' = k then (k, v) # kvs else (k', v') # map_set k v kvs)"




definition indexExisting :: "stored_component list \<Rightarrow> (string \<times> stored_component) list" where
  \<comment> \<open>The first loop of \<^verbatim>\<open>mergeComponents\<close>: \<open>existingByName\<close>.\<close>
  "indexExisting existing = foldl (\<lambda>m item. map_set (sc_name item) item m) [] existing"










subsection \<open>Loading the configuration from disk\<close>








subsection \<open>The diff summary\<close>




subsection \<open>Backups\<close>









section \<open>scanner.js: detecting the characteristics of a project\<close>

subsection \<open>Reading a parsed manifest\<close>

fun truthy :: "json \<Rightarrow> bool" where
  "truthy JNull = False"
| "truthy (JBool b) = b"
| "truthy (JNumber n) = (n \<noteq> 0)"
| "truthy (JString s) = (s \<noteq> [])"
| "truthy (JArray _) = True"
| "truthy (JObject _) = True"

definition truthyOpt :: "json option \<Rightarrow> bool" where
  \<comment> \<open>\<open>None\<close> is \<^verbatim>\<open>undefined\<close>.\<close>
  "truthyOpt v = (case v of None \<Rightarrow> False | Some j \<Rightarrow> truthy j)"

fun field :: "json \<Rightarrow> string \<Rightarrow> json option" where
  \<comment> \<open>\<^verbatim>\<open>j.key\<close> for a value that is not \<^verbatim>\<open>null\<close> and a key that no prototype
      defines (\<^verbatim>\<open>name\<close>, \<^verbatim>\<open>dependencies\<close>, \<^verbatim>\<open>devDependencies\<close>, \<^verbatim>\<open>bin\<close>, \<^verbatim>\<open>keywords\<close>).
      An object lists its own properties, each key once.\<close>
  "field (JObject kvs) k = map_of kvs k"
| "field _ k = None"

definition getProp :: "json \<Rightarrow> string \<Rightarrow> js_error + json option" where
  \<comment> \<open>Reading a property of \<^verbatim>\<open>null\<close> throws a TypeError.\<close>
  "getProp j k = (if j = JNull then Inl TypeError else Inr (field j k))"

fun ownEntries :: "json option \<Rightarrow> (string \<times> json) list" where
  \<comment> \<open>What the spread \<^verbatim>\<open>{...v}\<close> copies. The index keys of an array or a string
      (\<^verbatim>\<open>'0'\<close>, \<^verbatim>\<open>'1'\<close>, ...) are left out: no key read from \<open>allDeps\<close> is a number.\<close>
  "ownEntries (Some (JObject kvs)) = kvs"
| "ownEntries _ = []"

definition keywordsIncludeCli :: "json \<Rightarrow> js_error + bool" where
  \<comment> \<open>\<^verbatim>\<open>pkg.keywords.includes('cli')\<close> for a truthy \<^verbatim>\<open>pkg.keywords\<close>: an array
      compares its elements, a string searches itself, and any other value has no
      \<^verbatim>\<open>includes\<close>, which is a TypeError.\<close>
  "keywordsIncludeCli kw =
     (case kw of
        JArray xs \<Rightarrow> Inr (JString ''cli'' \<in> set xs)
      | JString s \<Rightarrow> Inr (includesStr s ''cli'')
      | _ \<Rightarrow> Inl TypeError)"

fun countSkipping :: "string \<Rightarrow> nat \<Rightarrow> string \<Rightarrow> nat" where
  \<comment> \<open>The matches of a literal pattern that \<^verbatim>\<open>s.match(/p/g)\<close> finds from left to
      right, none overlapping another; the counter skips the rest of a match.\<close>
  "countSkipping p k [] = 0"
| "countSkipping p k (c # cs) =
     (if 0 < k then countSkipping p (k - 1) cs
      else if startsWith (c # cs) p then 1 + countSkipping p (length p - 1) cs
      else countSkipping p 0 cs)"

subsection \<open>The scan\<close>

record scan_result =
  sr_name :: json
  sr_languages :: "string list"
  sr_frameworks :: "string list"
  sr_databases :: "string list"
  sr_architecture :: "string list"
  sr_projectType :: string
  sr_techStack :: "string list"
  sr_hasTests :: bool
  sr_hasDocker :: bool
  sr_hasCI :: bool
  sr_hasApi :: bool
  sr_existingClaude :: bool
  sr_existingSkills :: "string list"
  sr_existingAgents :: "string list"
  sr_existingHooks :: "string list"

definition initialDetected :: "string \<Rightarrow> scan_result" where
  \<comment> \<open>The object \<open>detected\<close> starts from; the argument is \<^verbatim>\<open>path.basename(projectPath)\<close>.\<close>
  "initialDetected basename =
     \<lparr>sr_name = JString basename, sr_languages = [], sr_frameworks = [], sr_databases = [],
      sr_architecture = [], sr_projectType = ''general'', sr_techStack = [],
      sr_hasTests = False, sr_hasDocker = False, sr_hasCI = False, sr_hasApi = False,
      sr_existingClaude = False, sr_existingSkills = [], sr_existingAgents = [],
      sr_existingHooks = []\<rparr>"

definition addLanguage :: "string \<Rightarrow> scan_result \<Rightarrow> scan_result" where
  "addLanguage x d = d\<lparr>sr_languages := sr_languages d @ [x]\<rparr>"

definition addFramework :: "string \<Rightarrow> scan_result \<Rightarrow> scan_result" where
  "addFramework x d = d\<lparr>sr_frameworks := sr_frameworks d @ [x]\<rparr>"

definition addDatabase :: "string \<Rightarrow> scan_result \<Rightarrow> scan_result" where
  "addDatabase x d = d\<lparr>sr_databases := sr_databases d @ [x]\<rparr>"

definition addArchitecture :: "string \<Rightarrow> scan_result \<Rightarrow> scan_result" where
  "addArchitecture x d = d\<lparr>sr_architecture := sr_architecture d @ [x]\<rparr>"

definition addTech :: "string \<Rightarrow> scan_result \<Rightarrow> scan_result" where
  "addTech x d = d\<lparr>sr_techStack := sr_techStack d @ [x]\<rparr>"

definition setType :: "string \<Rightarrow> scan_result \<Rightarrow> scan_result" where
  "setType t d = d\<lparr>sr_projectType := t\<rparr>"

definition setApi :: "scan_result \<Rightarrow> scan_result" where
  "setApi d = d\<lparr>sr_hasApi := True\<rparr>"

definition setTests :: "scan_result \<Rightarrow> scan_result" where
  "setTests d = d\<lparr>sr_hasTests := True\<rparr>"

definition steps :: "('a \<Rightarrow> 'a) list \<Rightarrow> 'a \<Rightarrow> 'a" where
  \<comment> \<open>Statements in sequence.\<close>
  "steps fs d = foldl (\<lambda>x f. f x) d fs"

definition ifThen :: "bool \<Rightarrow> ('a \<Rightarrow> 'a) list \<Rightarrow> 'a \<Rightarrow> 'a" where
  \<comment> \<open>\<^verbatim>\<open>if (c) { ... }\<close>\<close>
  "ifThen c fs d = (if c then steps fs d else d)"

definition apiService :: "string \<Rightarrow> (scan_result \<Rightarrow> scan_result) list" where
  \<comment> \<open>The block \<^verbatim>\<open>frameworks.push(x); projectType = 'api-service'; hasApi = true\<close>.\<close>
  "apiService x = [addFramework x, setType ''api-service'', setApi]"

definition scanNode :: "platform \<Rightarrow> node \<Rightarrow> scan_result \<Rightarrow> js_error + scan_result" where
  \<comment> \<open>Node.js / JavaScript / TypeScript. \<^verbatim>\<open>readJson\<close> is awaited without a handler,
      and \<^verbatim>\<open>pkg.name\<close> is read from whatever it returns.\<close>
  "scanNode pf root d0 =
     (if fileExists root [''package.json''] then
        andThen (readJson pf root [''package.json'']) (\<lambda>pkg.
        andThen (getProp pkg ''name'') (\<lambda>pkgName.
          let allDeps =
                ownEntries (field pkg ''devDependencies'') @
                ownEntries (field pkg ''dependencies'');
              dep = (\<lambda>k. truthyOpt (map_of allDeps k))
          in Inr (steps
            [addLanguage ''javascript'',
             addTech ''nodejs'',
             (\<lambda>d. case pkgName of
                    None \<Rightarrow> d
                  | Some v \<Rightarrow> if truthy v then d\<lparr>sr_name := v\<rparr> else d),
             ifThen (dep ''@angular/core'')
               [addFramework ''angular'', addTech ''angular'', setType ''angular-frontend''],
             ifThen (dep ''next'')
               [addFramework ''nextjs'', addTech ''nextjs'', setType ''react-nextjs''],
             ifThen (dep ''react'' \<and> \<not> dep ''next'')
               [addFramework ''react'', addTech ''react'', setType ''react-nextjs''],
             ifThen (dep ''vue'')
               [addFramework ''vue'', addTech ''vue'', setType ''general''],
             ifThen (dep ''express'' \<or> dep ''fastify'' \<or> dep ''koa'' \<or> dep ''hapi'')
               (apiService ''node-api''),
             ifThen (dep ''typescript'') [addLanguage ''typescript'', addTech ''typescript''],
             ifThen (dep ''@nestjs/core'')
               [addFramework ''nestjs'', addTech ''nestjs'', setType ''api-service'', setApi],
             ifThen (dep ''jest'' \<or> dep ''mocha'' \<or> dep ''vitest'' \<or> dep ''ava'') [setTests],
             ifThen (dep ''pg'' \<or> dep ''postgres'') [addDatabase ''postgresql'', addTech ''sql''],
             ifThen (dep ''mysql'' \<or> dep ''mysql2'') [addDatabase ''mysql'', addTech ''sql''],
             ifThen (dep ''mongodb'' \<or> dep ''mongoose'') [addDatabase ''mongodb'', addTech ''nosql''],
             ifThen (dep ''redis'' \<or> dep ''ioredis'') [addDatabase ''redis''],
             ifThen (dep ''prisma'' \<or> dep ''@prisma/client'') [addFramework ''prisma''],
             ifThen (dep ''typeorm'') [addFramework ''typeorm''],
             ifThen (dep ''sequelize'') [addFramework ''sequelize'']] d0)))
      else Inr d0)"

fun scanCsproj :: "node \<Rightarrow> string list list \<Rightarrow> scan_result \<Rightarrow> js_error + scan_result" where
  \<comment> \<open>The loop over the project files; \<^verbatim>\<open>readFile\<close> is awaited without a handler.\<close>
  "scanCsproj root [] d = Inr d"
| "scanCsproj root (csproj # rest) d =
     andThen (readFile root csproj) (\<lambda>content.
       scanCsproj root rest (steps
         [(\<lambda>d. ifThen (includesStr content ''Microsoft.EntityFrameworkCore'' \<and>
                        ''ef-core'' \<notin> set (sr_frameworks d))
                  [addFramework ''ef-core'', addTech ''ef-core''] d),
          (\<lambda>d. ifThen (includesStr content ''Microsoft.AspNetCore'' \<and>
                        ''aspnet'' \<notin> set (sr_frameworks d))
                  (apiService ''aspnet'') d),
          ifThen (includesStr content ''xunit'' \<or> includesStr content ''NUnit'' \<or>
                  includesStr content ''MSTest'') [setTests],
          ifThen (includesStr content ''Blazor'') [addFramework ''blazor'']] d))"

definition scanDotnet :: "platform \<Rightarrow> node \<Rightarrow> scan_result \<Rightarrow> js_error + scan_result" where
  "scanDotnet pf root d =
     (let csprojFiles = glob pf root ''**/*.csproj'' 100 in
      if csprojFiles \<noteq> [] then
        andThen
          (scanCsproj root (take 5 csprojFiles)
             (steps [addLanguage ''csharp'', addTech ''dotnet''] d))
          (\<lambda>d'. let slnFiles = glob pf root ''*.sln'' 100
                 in Inr (ifThen (slnFiles \<noteq> [] \<and> 3 < length csprojFiles)
                           [setType ''dotnet-clean-arch''] d'))
      else Inr d)"

definition scanPython :: "node \<Rightarrow> scan_result \<Rightarrow> scan_result" where
  "scanPython root d =
     (if fileExists root [''requirements.txt''] \<or> fileExists root [''pyproject.toml''] \<or>
         fileExists root [''setup.py''] \<or> fileExists root [''Pipfile''] then
        let combined =
              readFileOrEmpty root [''requirements.txt''] @
              readFileOrEmpty root [''pyproject.toml'']
        in steps
          [addLanguage ''python'',
           addTech ''python'',
           ifThen (includesStr combined ''fastapi'' \<or> includesStr combined ''FastAPI'')
             (apiService ''fastapi''),
           ifThen (includesStr combined ''django'' \<or> includesStr combined ''Django'')
             (apiService ''django''),
           ifThen (includesStr combined ''flask'' \<or> includesStr combined ''Flask'')
             (apiService ''flask''),
           ifThen (includesStr combined ''pytest'') [setTests],
           ifThen (includesStr combined ''sqlalchemy'' \<or> includesStr combined ''SQLAlchemy'')
             [addFramework ''sqlalchemy'']] d
      else d)"

definition scanGo :: "node \<Rightarrow> scan_result \<Rightarrow> scan_result" where
  "scanGo root d =
     (if fileExists root [''go.mod''] then
        let goModContent = readFileOrEmpty root [''go.mod'']
        in steps
          [addLanguage ''go'',
           addTech ''go'',
           ifThen (includesStr goModContent ''gin-gonic'') (apiService ''gin''),
           ifThen (includesStr goModContent ''echo'') (apiService ''echo''),
           ifThen (includesStr goModContent ''fiber'') (apiService ''fiber'')] d
      else d)"

definition scanRust :: "node \<Rightarrow> scan_result \<Rightarrow> scan_result" where
  "scanRust root d =
     (if fileExists root [''Cargo.toml''] then
        let cargoContent = readFileOrEmpty root [''Cargo.toml'']
        in steps
          [addLanguage ''rust'',
           addTech ''rust'',
           ifThen (includesStr cargoContent ''actix-web'') (apiService ''actix''),
           ifThen (includesStr cargoContent ''axum'') (apiService ''axum'')] d
      else d)"

definition scanJava :: "node \<Rightarrow> scan_result \<Rightarrow> scan_result" where
  "scanJava root d =
     (if fileExists root [''pom.xml''] \<or> fileExists root [''build.gradle''] then
        let combined =
              readFileOrEmpty root [''pom.xml''] @ readFileOrEmpty root [''build.gradle'']
        in steps
          [addLanguage ''java'',
           addTech ''java'',
           ifThen (includesStr combined ''spring-boot'' \<or>
                   includesStr combined ''org.springframework.boot'')
             (apiService ''spring-boot'')] d
      else d)"

definition scanArchitecture :: "node \<Rightarrow> scan_result \<Rightarrow> scan_result" where
  \<comment> \<open>Clean architecture, vertical slice, CQRS, repository pattern, microservices and
      monorepo, in this order.\<close>
  "scanArchitecture root =
     steps
       [ifThen
          ((dirExists root [''src'', ''Domain''] \<and> dirExists root [''src'', ''Application'']) \<or>
           (dirExists root [''Domain''] \<and> dirExists root [''Application'']) \<or>
           (dirExists root [''src'', ''Core''] \<and> dirExists root [''src'', ''Infrastructure'']))
          [addArchitecture ''clean-architecture'',
           (\<lambda>d. ifThen (''dotnet'' \<in> set (sr_techStack d)) [setType ''dotnet-clean-arch''] d)],
        ifThen (dirExists root [''src'', ''Features''] \<or> dirExists root [''Features''])
          [addArchitecture ''vertical-slice''],
        ifThen
          (dirExists root [''src'', ''Application'', ''Commands''] \<or>
           dirExists root [''src'', ''Application'', ''Queries''] \<or>
           dirExists root [''Commands''] \<or> dirExists root [''Queries''])
          [addArchitecture ''cqrs''],
        ifThen
          (dirExists root [''src'', ''Repositories''] \<or> dirExists root [''Repositories''] \<or>
           dirExists root [''src'', ''Infrastructure'', ''Repositories''])
          [addArchitecture ''repository-pattern''],
        ifThen (dirExists root [''services''] \<or> fileExists root [''docker-compose.yml''])
          [(let dockerContent = readFileOrEmpty root [''docker-compose.yml'']
            in ifThen (includesStr dockerContent ''services:'' \<and>
                       3 < countSkipping ''services:'' 0 dockerContent)
                 [addArchitecture ''microservices''])],
        ifThen
          (fileExists root [''pnpm-workspace.yaml''] \<or> fileExists root [''lerna.json''] \<or>
           fileExists root [''nx.json''] \<or> dirExists root [''packages''] \<or>
           dirExists root [''apps''])
          [setType ''monorepo'']]"

definition scanCli :: "platform \<Rightarrow> node \<Rightarrow> scan_result \<Rightarrow> js_error + scan_result" where
  \<comment> \<open>CLI tool: here \<^verbatim>\<open>readJson(...).catch(() => ({}))\<close> turns a failure into \<^verbatim>\<open>{}\<close>.\<close>
  "scanCli pf root d =
     (if fileExists root [''package.json''] then
        let pkg = (case readJson pf root [''package.json''] of Inl _ \<Rightarrow> JObject [] | Inr j \<Rightarrow> j)
        in andThen (getProp pkg ''bin'') (\<lambda>bin.
             if truthyOpt bin then Inr (setType ''cli-tool'' d)
             else
               (case field pkg ''keywords'' of
                  None \<Rightarrow> Inr d
                | Some kw \<Rightarrow>
                    if truthy kw then
                      andThen (keywordsIncludeCli kw) (\<lambda>b. Inr (ifThen b [setType ''cli-tool''] d))
                    else Inr d))
      else Inr d)"

definition scanInfrastructure :: "node \<Rightarrow> scan_result \<Rightarrow> scan_result" where
  "scanInfrastructure root =
     steps
       [ifThen
          (fileExists root [''Dockerfile''] \<or> fileExists root [''docker-compose.yml''] \<or>
           fileExists root [''docker-compose.yaml''] \<or> fileExists root [''.dockerignore''])
          [(\<lambda>d. d\<lparr>sr_hasDocker := True\<rparr>), addTech ''docker''],
        ifThen
          (dirExists root [''k8s''] \<or> dirExists root [''kubernetes''] \<or> dirExists root [''helm''])
          [addTech ''kubernetes''],
        ifThen
          (dirExists root [''.github'', ''workflows''] \<or> fileExists root [''.gitlab-ci.yml''] \<or>
           fileExists root [''azure-pipelines.yml''] \<or> fileExists root [''Jenkinsfile''] \<or>
           fileExists root [''.circleci'', ''config.yml''])
          [(\<lambda>d. d\<lparr>sr_hasCI := True\<rparr>)]]"

definition databaseHit :: "bool \<Rightarrow> string \<Rightarrow> string \<Rightarrow> scan_result \<Rightarrow> scan_result" where
  \<comment> \<open>\<^verbatim>\<open>if (hit) { if (!databases.includes(db)) { databases.push(db);
      if (!techStack.includes(tech)) techStack.push(tech) } }\<close>\<close>
  "databaseHit hit db tech d =
     (if hit \<and> db \<notin> set (sr_databases d) then
        ifThen (tech \<notin> set (sr_techStack d)) [addTech tech] (addDatabase db d)
      else d)"

definition scanConfigFile :: "node \<Rightarrow> scan_result \<Rightarrow> string list \<Rightarrow> scan_result" where
  "scanConfigFile root d file =
     (let content = readFileOrEmpty root file
      in steps
        [databaseHit (includesStr content ''postgres'' \<or> includesStr content ''PostgreSQL'' \<or>
                      includesStr content ''5432'') ''postgresql'' ''sql'',
         databaseHit (includesStr content ''SqlServer'' \<or> includesStr content ''MSSQL'' \<or>
                      includesStr content ''1433'') ''sqlserver'' ''sql'',
         databaseHit (includesStr content ''mongodb'' \<or> includesStr content ''MongoDB'' \<or>
                      includesStr content ''27017'') ''mongodb'' ''nosql'',
         databaseHit (includesStr content ''mysql'' \<or> includesStr content ''MySQL'' \<or>
                      includesStr content ''3306'') ''mysql'' ''sql''] d)"

definition scanDatabases :: "platform \<Rightarrow> node \<Rightarrow> scan_result \<Rightarrow> scan_result" where
  "scanDatabases pf root d =
     foldl (scanConfigFile root) d (glob pf root ''**/*.{json,yaml,yml,env,config}'' 30)"

definition scanExistingClaude :: "node \<Rightarrow> scan_result \<Rightarrow> scan_result" where
  "scanExistingClaude root =
     ifThen (dirExists root [''.claude''])
       [(\<lambda>d. d\<lparr>sr_existingClaude := True\<rparr>),
        ifThen (dirExists root [''.claude'', ''skills''])
          [(\<lambda>d. case readdir root [''.claude'', ''skills''] of
                  Inl _ \<Rightarrow> d
                | Inr skillDirs \<Rightarrow>
                    d\<lparr>sr_existingSkills := sr_existingSkills d @
                         filter (\<lambda>x. dirExists root [''.claude'', ''skills'', x]) skillDirs\<rparr>)],
        ifThen (dirExists root [''.claude'', ''agents''])
          [(\<lambda>d. case readdir root [''.claude'', ''agents''] of
                  Inl _ \<Rightarrow> d
                | Inr agentFiles \<Rightarrow>
                    d\<lparr>sr_existingAgents :=
                         map (\<lambda>f. removeFirst f ''.md'')
                           (filter (\<lambda>f. endsWith f ''.md'') agentFiles)\<rparr>)],
        ifThen (dirExists root [''.claude'', ''hooks''])
          [(\<lambda>d. case readdir root [''.claude'', ''hooks''] of
                  Inl _ \<Rightarrow> d
                | Inr hookFiles \<Rightarrow>
                    d\<lparr>sr_existingHooks :=
                         map (\<lambda>f. removeFirst f ''.sh'')
                           (filter (\<lambda>f. endsWith f ''.sh'') hookFiles)\<rparr>)]]"

definition deduplicate :: "scan_result \<Rightarrow> scan_result" where
  "deduplicate d =
     d\<lparr>sr_languages := new_Set (sr_languages d),
       sr_frameworks := new_Set (sr_frameworks d),
       sr_databases := new_Set (sr_databases d),
       sr_architecture := new_Set (sr_architecture d),
       sr_techStack := new_Set (sr_techStack d)\<rparr>"

definition scanProject :: "platform \<Rightarrow> string \<Rightarrow> node \<Rightarrow> js_error + scan_result" where
  \<comment> \<open>\<open>Inl\<close>: the promise \<^verbatim>\<open>scanProject\<close> returns is rejected.\<close>
  "scanProject pf basename root =
     andThen (scanNode pf root (initialDetected basename)) (\<lambda>d1.
     andThen (scanDotnet pf root d1) (\<lambda>d2.
     andThen
       (scanCli pf root
          (steps [scanPython root, scanGo root, scanRust root, scanJava root,
                  scanArchitecture root] d2))
       (\<lambda>d3. Inr (steps [scanInfrastructure root, scanDatabases pf root,
                         scanExistingClaude root, deduplicate] d3))))"

section \<open>Notions used to state the properties\<close>

text \<open>A rule fires in a context when its condition returns a truthy value; a list that may
  be missing reads as a list.\<close>

definition fires :: "'c \<Rightarrow> 'c rule \<Rightarrow> bool" where
  "fires ctx r = (condition r ctx = Returns True)"

definition opt_list :: "'a list option \<Rightarrow> 'a list" where
  "opt_list xs = (case xs of None \<Rightarrow> [] | Some ys \<Rightarrow> ys)"




text \<open>
  The extraction of custom sections, as the specification words it. A marker is present
  when its text occurs in the content, and its span starts at the first occurrence
  (\<open>firstOccurrence\<close>: the least index at which the marker stands). The span ends
  immediately before the next line that matches the heading pattern (\<open>nextHeading\<close>: the
  least index from the end of the marker on at which a line feed, \<^verbatim>\<open>## \<close> and a character
  other than \<^verbatim>\<open>#\<close> stand), or at the end of the content. Each span is followed by a blank
  line and the whole is trimmed. \<open>sectionsInDocumentOrder\<close> takes the spans in the order
  of their positions in the content, \<open>sectionsInMarkerOrder\<close> in the order of the list of
  markers.
\<close>

definition firstOccurrence :: "string \<Rightarrow> string \<Rightarrow> nat option" where
  "firstOccurrence content marker =
     find (\<lambda>i. startsWith (drop i content) marker) [0..<Suc (length content)]"

definition nextHeading :: "string \<Rightarrow> nat \<Rightarrow> nat" where
  "nextHeading content start =
     (case find (\<lambda>e. nextHeadingHere (drop e content)) [start..<length content] of
        Some e \<Rightarrow> e
      | None \<Rightarrow> length content)"

definition markerSpan :: "string \<Rightarrow> string \<Rightarrow> (nat \<times> string) option" where
  "markerSpan content marker =
     (case firstOccurrence content marker of
        None \<Rightarrow> None
      | Some i \<Rightarrow> Some (i, slice content i (nextHeading content (i + length marker))))"

definition markerSpans :: "string \<Rightarrow> (nat \<times> string) list" where
  "markerSpans content = List.map_filter (markerSpan content) customMarkers"




section \<open>Concrete inputs for the examples\<close>

subsection \<open>Rules\<close>

definition demo_rules :: "nat rule list" where
  "demo_rules =
     [mkRule (\<lambda>n. Throws) ''(ctx) => ctx.a.b'' [''s1''] [''a1''] [''h1''] ''r1'',
      mkRule (\<lambda>n. Returns (n = 0)) ''(ctx) => ctx === 0'' [''s2''] [''a2''] [''h2''] ''r2'',
      mkRule (\<lambda>n. Returns (0 < n)) ''(ctx) => ctx > 0'' [''s3''] [''a3''] [''h3''] ''r3'']"

definition always_rule :: "unit rule" where
  "always_rule = mkRule (\<lambda>_. Returns True) ''() => true'' [''s''] [''a''] [''h''] ''why''"

definition silent_rule :: "unit rule" where
  "silent_rule =
     \<lparr>condition = (\<lambda>_. Returns True), conditionSource = ''(ctx) => true'',
      rule_skills = Some [], rule_agents = Some [], rule_hooks = Some [],
      rule_reason = Some []\<rparr>"

definition spoken_rule :: "unit rule" where
  "spoken_rule =
     \<lparr>condition = (\<lambda>_. Returns True), conditionSource = ''(ctx) => true'',
      rule_skills = Some [], rule_agents = Some [], rule_hooks = Some [],
      rule_reason = Some ''because''\<rparr>"

subsection \<open>Projects\<close>

text \<open>A platform whose parser accepts the text \<^verbatim>\<open>{}\<close> only, and a project whose
  manifest is the text \<^verbatim>\<open>{\<close>.\<close>

definition rejecting_platform :: platform where
  "rejecting_platform =
     \<lparr>JSON_parse = (\<lambda>s. if s = ''{}'' then Some (JObject []) else None),
      globAvailable = True, globMatches = (\<lambda>pattern p. False)\<rparr>"

definition broken_manifest_project :: node where
  "broken_manifest_project = Dir [(''package.json'', File ''{'')]"

subsection \<open>Backups\<close>


subsection \<open>Stored components\<close>






subsection \<open>Component files\<close>

text \<open>A file whose \<^verbatim>\<open>## Our Rules\<close> section stands before its \<^verbatim>\<open>## Project-Specific\<close>
  section, and a file without a marker.\<close>

definition rules_before_project :: string where
  "rules_before_project = ''## Our Rules\<newline>a\<newline>## Project-Specific\<newline>b''"


section \<open>Properties of the recommendation engine\<close>

subsection \<open>Sets as lists, and the loop over the rules\<close>

lemma set_set_add: "set (set_add x xs) = insert x (set xs)"
  by (auto simp: set_add_def)


lemma set_add_all: "set (add_all acc xs) = set acc \<union> set xs"
  unfolding add_all_def by (induction xs arbitrary: acc) (auto simp: set_set_add)


lemma set_new_Set: "set (new_Set xs) = set xs"
  by (simp add: new_Set_def set_add_all)


lemma set_add_opt: "set (add_opt acc xs) = set acc \<union> set (opt_list xs)"
  by (simp add: add_opt_def opt_list_def set_add_all split: option.splits)

lemma applyRules_skip:
  "\<not> fires ctx r \<Longrightarrow> applyRules (r # rs) ctx recs = applyRules rs ctx recs"
  by (cases "condition r ctx") (auto simp: fires_def ruleBody_def)

lemma applyRules_fire:
  "fires ctx r \<Longrightarrow>
   applyRules (r # rs) ctx recs =
     applyRules rs ctx
       \<lparr>skills = add_opt (skills recs) (rule_skills r),
        agents = add_opt (agents recs) (rule_agents r),
        hooks = add_opt (hooks recs) (rule_hooks r),
        reasons = push_reason r (reasons recs)\<rparr>"
  by (simp add: fires_def ruleBody_def)

lemma applyRules_filter:
  "applyRules rules ctx recs = applyRules (filter (fires ctx) rules) ctx recs"
proof (induction rules arbitrary: recs)
  case Nil
  show ?case by simp
next
  case (Cons r rs)
  show ?case
  proof (cases "fires ctx r")
    case True
    then show ?thesis using Cons.IH by (simp add: applyRules_fire del: applyRules.simps)
  next
    case False
    then show ?thesis using Cons.IH [of recs] by (simp add: applyRules_skip del: applyRules.simps)
  qed
qed

lemma set_skills_applyRules:
  "set (skills (applyRules rules ctx recs)) =
     set (skills recs) \<union> (\<Union>r \<in> set (filter (fires ctx) rules). set (opt_list (rule_skills r)))"
proof (induction rules arbitrary: recs)
  case Nil
  show ?case by simp
next
  case (Cons r rs)
  show ?case
  proof (cases "fires ctx r")
    case True
    then show ?thesis
      by (auto simp: applyRules_fire Cons.IH set_add_opt simp del: applyRules.simps)
  next
    case False
    then show ?thesis by (simp add: applyRules_skip Cons.IH del: applyRules.simps)
  qed
qed

lemma set_agents_applyRules:
  "set (agents (applyRules rules ctx recs)) =
     set (agents recs) \<union> (\<Union>r \<in> set (filter (fires ctx) rules). set (opt_list (rule_agents r)))"
proof (induction rules arbitrary: recs)
  case Nil
  show ?case by simp
next
  case (Cons r rs)
  show ?case
  proof (cases "fires ctx r")
    case True
    then show ?thesis
      by (auto simp: applyRules_fire Cons.IH set_add_opt simp del: applyRules.simps)
  next
    case False
    then show ?thesis by (simp add: applyRules_skip Cons.IH del: applyRules.simps)
  qed
qed

lemma set_hooks_applyRules:
  "set (hooks (applyRules rules ctx recs)) =
     set (hooks recs) \<union> (\<Union>r \<in> set (filter (fires ctx) rules). set (opt_list (rule_hooks r)))"
proof (induction rules arbitrary: recs)
  case Nil
  show ?case by simp
next
  case (Cons r rs)
  show ?case
  proof (cases "fires ctx r")
    case True
    then show ?thesis
      by (auto simp: applyRules_fire Cons.IH set_add_opt simp del: applyRules.simps)
  next
    case False
    then show ?thesis by (simp add: applyRules_skip Cons.IH del: applyRules.simps)
  qed
qed

lemma push_reason_append: "push_reason r rs = rs @ push_reason r []"
  by (simp add: push_reason_def split: option.splits)

lemma reasons_applyRules:
  "reasons (applyRules rules ctx recs) =
     reasons recs @ concat (map (\<lambda>r. push_reason r []) (filter (fires ctx) rules))"
proof (induction rules arbitrary: recs)
  case Nil
  show ?case by simp
next
  case (Cons r rs)
  show ?case
  proof (cases "fires ctx r")
    case True
    then show ?thesis
      using push_reason_append [of r "reasons recs"]
      by (simp add: applyRules_fire Cons.IH del: applyRules.simps)
  next
    case False
    then show ?thesis by (simp add: applyRules_skip Cons.IH del: applyRules.simps)
  qed
qed

lemma push_reason_always_true:
  "conditionSource r = always_true_source \<Longrightarrow> push_reason r rs = rs"
  by (simp add: push_reason_def split: option.splits)

lemma concat_map_filter_nil:
  "(\<And>x. x \<in> set xs \<Longrightarrow> \<not> Q x \<Longrightarrow> f x = []) \<Longrightarrow>
   concat (map f (filter Q xs)) = concat (map f xs)"
  by (induction xs) auto

lemma reasons_ignore_always_true:
  "reasons (applyRules (filter (\<lambda>r. conditionSource r \<noteq> always_true_source) rules) ctx recs) =
   reasons (applyRules rules ctx recs)"
proof -
  have "concat (map (\<lambda>r. push_reason r [])
          (filter (\<lambda>r. conditionSource r \<noteq> always_true_source) (filter (fires ctx) rules))) =
        concat (map (\<lambda>r. push_reason r []) (filter (fires ctx) rules))"
    by (rule concat_map_filter_nil) (simp add: push_reason_always_true)
  moreover have "filter (fires ctx) (filter (\<lambda>r. conditionSource r \<noteq> always_true_source) rules) =
      filter (\<lambda>r. conditionSource r \<noteq> always_true_source) (filter (fires ctx) rules)"
    by (simp add: conj_commute)
  ultimately show ?thesis by (simp only: reasons_applyRules)
qed

subsection \<open>The unconditional rule of the production table\<close>

lemma production_always_rule:
  "set [''code-reviewer'', ''commit-msg-generator'', ''git-workflow'']
     \<subseteq> set (skills (analyzeProject ctx)) \<and>
   ''code-reviewer'' \<in> set (agents (analyzeProject ctx)) \<and>
   ''session-context-loader'' \<in> set (hooks (analyzeProject ctx)) \<and>
   ''Essential skills for any software project'' \<notin> set (reasons (analyzeProject ctx))"
proof -
  let ?r = "mkRule (\<lambda>_. Returns True) ''() => true''
        [''code-reviewer'', ''commit-msg-generator'', ''git-workflow'']
        [''code-reviewer''] [''session-context-loader'']
        ''Essential skills for any software project'' :: context option rule"
  have mem: "?r \<in> set (filter (fires ctx) recommendationRules)"
    by (simp add: recommendationRules_def fires_def mkRule_def)
  have sk: "set (opt_list (rule_skills ?r)) \<subseteq> set (skills (analyzeProject ctx))"
    unfolding analyzeProject_def analyzeWith_def Let_def
    using mem by (simp only: recommendations.simps set_skills_applyRules) blast
  have ag: "set (opt_list (rule_agents ?r)) \<subseteq> set (agents (analyzeProject ctx))"
    unfolding analyzeProject_def analyzeWith_def Let_def
    using mem by (simp only: recommendations.simps set_agents_applyRules) blast
  have hk: "set (opt_list (rule_hooks ?r)) \<subseteq> set (hooks (analyzeProject ctx))"
    unfolding analyzeProject_def analyzeWith_def Let_def
    using mem by (simp only: recommendations.simps set_hooks_applyRules) blast
  have "\<forall>r \<in> set recommendationRules.
      ''Essential skills for any software project'' \<notin> set (push_reason r [])"
    by (simp add: recommendationRules_def mkRule_def push_reason_def always_true_source_def)
  then have rs: "''Essential skills for any software project'' \<notin> set (reasons (analyzeProject ctx))"
    by (auto simp: analyzeProject_def analyzeWith_def Let_def set_new_Set reasons_applyRules)
  show ?thesis using sk ag hk rs by (simp add: mkRule_def opt_list_def)
qed

subsection \<open>Claims about the engine\<close>

text \<open>
  Claim C4. Evaluation is total: \<^const>\<open>analyzeWith\<close> returns a result for every rule
  list and every context, an exception of a condition being caught by \<^const>\<open>applyRules\<close>.
  A rule whose condition throws or returns a falsy value is skipped: the result is the one
  of the rules whose conditions return a truthy value, evaluated alone. The result includes
  what each of these rules contributes: its skills, its agents, its hooks, and the reason
  the rule pushes (\<^const>\<open>push_reason\<close>).
\<close>

theorem analyze_skips_failing_rules:
  "analyzeWith rules ctx = analyzeWith (filter (\<lambda>r. condition r ctx = Returns True) rules) ctx \<and>
   (\<forall>r \<in> set rules. condition r ctx = Returns True \<longrightarrow>
      set (opt_list (rule_skills r)) \<subseteq> set (skills (analyzeWith rules ctx)) \<and>
      set (opt_list (rule_agents r)) \<subseteq> set (agents (analyzeWith rules ctx)) \<and>
      set (opt_list (rule_hooks r)) \<subseteq> set (hooks (analyzeWith rules ctx)) \<and>
      set (push_reason r []) \<subseteq> set (reasons (analyzeWith rules ctx)))"
proof -
  have "fires ctx = (\<lambda>r. condition r ctx = Returns True)"
    by (simp add: fun_eq_iff fires_def)
  then have filt: "filter (\<lambda>r. condition r ctx = Returns True) rules = filter (fires ctx) rules"
    by simp
  have skip: "analyzeWith rules ctx = analyzeWith (filter (fires ctx) rules) ctx"
    unfolding analyzeWith_def by (subst applyRules_filter) simp
  have incl: "set (opt_list (rule_skills r)) \<subseteq> set (skills (analyzeWith rules ctx)) \<and>
      set (opt_list (rule_agents r)) \<subseteq> set (agents (analyzeWith rules ctx)) \<and>
      set (opt_list (rule_hooks r)) \<subseteq> set (hooks (analyzeWith rules ctx)) \<and>
      set (push_reason r []) \<subseteq> set (reasons (analyzeWith rules ctx))"
    if "r \<in> set rules" "condition r ctx = Returns True" for r
  proof -
    from that have "r \<in> set (filter (fires ctx) rules)" by (simp add: fires_def)
    then show ?thesis
      unfolding analyzeWith_def Let_def
      by (simp add: set_skills_applyRules set_agents_applyRules set_hooks_applyRules
            set_new_Set reasons_applyRules) blast
  qed
  show ?thesis using skip incl by (simp add: filt)
qed

text \<open>
  A table of three rules in the context \<open>1\<close>: the first condition throws, the second is
  false, the third is true and alone decides the result.
\<close>

theorem analyze_skips_failing_rules_witness:
  "analyzeWith demo_rules 1 = analyzeWith [demo_rules ! 2] 1 \<and>
   analyzeWith demo_rules 1 = \<lparr>skills = [''s3''], agents = [''a3''], hooks = [''h3''], reasons = [''r3'']\<rparr>"
  using analyze_skips_failing_rules [of demo_rules 1]
  by (simp add: demo_rules_def mkRule_def analyzeWith_def ruleBody_def add_opt_def add_all_def
        set_add_def push_reason_def always_true_source_def new_Set_def)

text \<open>
  Claim C5. In every rule table and every context, a rule whose condition is written
  \<^verbatim>\<open>() => true\<close> (and returns true) contributes its skills, agents and hooks, and pushes
  no reason; the reasons of the result are those of the table without such rules. The
  production table on the empty context \<^verbatim>\<open>{}\<close> yields the skills code-reviewer,
  commit-msg-generator, git-workflow, the agent code-reviewer, the hook
  session-context-loader and no reason, which is the output of its last rule alone. In
  every context, defined or not, the result of the production table holds these skills,
  this agent and this hook, and never the reason of the unconditional rule.
\<close>

theorem always_true_rule_contributes_without_reason:
  "(\<forall>r \<in> set rules. conditionSource r = ''() => true'' \<and> condition r ctx = Returns True \<longrightarrow>
      set (opt_list (rule_skills r)) \<subseteq> set (skills (analyzeWith rules ctx)) \<and>
      set (opt_list (rule_agents r)) \<subseteq> set (agents (analyzeWith rules ctx)) \<and>
      set (opt_list (rule_hooks r)) \<subseteq> set (hooks (analyzeWith rules ctx)) \<and>
      push_reason r rs = rs) \<and>
   reasons (analyzeWith rules ctx) =
     reasons (analyzeWith (filter (\<lambda>r. conditionSource r \<noteq> ''() => true'') rules) ctx) \<and>
   analyzeProject (Some empty_context) =
     \<lparr>skills = [''code-reviewer'', ''commit-msg-generator'', ''git-workflow''],
      agents = [''code-reviewer''], hooks = [''session-context-loader''], reasons = []\<rparr> \<and>
   analyzeProject (Some empty_context) =
     analyzeWith [last recommendationRules] (Some empty_context) \<and>
   (set [''code-reviewer'', ''commit-msg-generator'', ''git-workflow'']
      \<subseteq> set (skills (analyzeProject anyContext)) \<and>
    ''code-reviewer'' \<in> set (agents (analyzeProject anyContext)) \<and>
    ''session-context-loader'' \<in> set (hooks (analyzeProject anyContext)) \<and>
    ''Essential skills for any software project'' \<notin> set (reasons (analyzeProject anyContext)))"
proof -
  have incl: "set (opt_list (rule_skills r)) \<subseteq> set (skills (analyzeWith rules ctx)) \<and>
      set (opt_list (rule_agents r)) \<subseteq> set (agents (analyzeWith rules ctx)) \<and>
      set (opt_list (rule_hooks r)) \<subseteq> set (hooks (analyzeWith rules ctx)) \<and>
      push_reason r rs = rs"
    if "r \<in> set rules" "conditionSource r = ''() => true''" "condition r ctx = Returns True" for r
  proof -
    from that have "r \<in> set (filter (fires ctx) rules)" by (simp add: fires_def)
    moreover from that have "push_reason r rs = rs"
      by (simp add: push_reason_always_true always_true_source_def)
    ultimately show ?thesis
      unfolding analyzeWith_def Let_def
      by (simp add: set_skills_applyRules set_agents_applyRules set_hooks_applyRules) blast
  qed
  have same: "reasons (analyzeWith rules ctx) =
     reasons (analyzeWith (filter (\<lambda>r. conditionSource r \<noteq> ''() => true'') rules) ctx)"
    using reasons_ignore_always_true [of rules ctx]
    by (simp add: analyzeWith_def Let_def always_true_source_def)
  have table: "analyzeProject (Some empty_context) =
     \<lparr>skills = [''code-reviewer'', ''commit-msg-generator'', ''git-workflow''],
      agents = [''code-reviewer''], hooks = [''session-context-loader''], reasons = []\<rparr>"
    by (simp add: analyzeProject_def analyzeWith_def recommendationRules_def mkRule_def
          reading_def includes_opt_def empty_context_def ruleBody_def add_opt_def add_all_def
          set_add_def push_reason_def always_true_source_def new_Set_def)
  have only: "analyzeWith [last recommendationRules] (Some empty_context) =
     \<lparr>skills = [''code-reviewer'', ''commit-msg-generator'', ''git-workflow''],
      agents = [''code-reviewer''], hooks = [''session-context-loader''], reasons = []\<rparr>"
    by (simp add: analyzeWith_def recommendationRules_def mkRule_def
          ruleBody_def add_opt_def add_all_def
          set_add_def push_reason_def always_true_source_def new_Set_def)
  show ?thesis
    using incl same table only production_always_rule [of anyContext] by simp
qed

text \<open>The table of one unconditional rule.\<close>

theorem always_true_rule_witness:
  "set [''s''] \<subseteq> set (skills (analyzeWith [always_rule] ())) \<and>
   set [''a''] \<subseteq> set (agents (analyzeWith [always_rule] ())) \<and>
   set [''h''] \<subseteq> set (hooks (analyzeWith [always_rule] ())) \<and>
   push_reason always_rule [] = []"
  using always_true_rule_contributes_without_reason [of "[always_rule]" "()" "[]"]
  by (simp add: always_rule_def mkRule_def opt_list_def)

text \<open>
  Claim C10, as stated, fails: a rule written \<^verbatim>\<open>(ctx) => true\<close> whose reason is the empty
  string has a condition that returns true and a source text other than
  \<^verbatim>\<open>() => true\<close>, and its reason is not in the list.
\<close>

theorem reason_excluded_counterexample:
  "condition silent_rule () = Returns True \<and>
   conditionSource silent_rule \<noteq> ''() => true'' \<and>
   rule_reason silent_rule = Some [] \<and>
   [] \<notin> set (reasons (analyzeWith [silent_rule] ()))"
  by (simp add: silent_rule_def analyzeWith_def ruleBody_def add_opt_def add_all_def
        push_reason_def new_Set_def)

text \<open>
  Claim C10, amended. A rule whose condition returns a truthy value appends its reason
  unless the reason is missing or empty, or the source text of the condition is exactly
  \<^verbatim>\<open>() => true\<close>. A string is among the reasons of the result exactly when it is the
  non-empty reason of a rule whose condition returns a truthy value and is written with
  any other source text.
\<close>

theorem reason_excluded_iff_empty_or_always_true:
  "(condition r ctx = Returns True \<longrightarrow>
      (\<exists>recs'. ruleBody r ctx recs = Inr recs' \<and>
         reasons recs' = reasons recs @
           (case rule_reason r of
              None \<Rightarrow> []
            | Some t \<Rightarrow> if t = [] \<or> conditionSource r = ''() => true'' then [] else [t]))) \<and>
   (t \<in> set (reasons (analyzeWith rules ctx)) \<longleftrightarrow>
      (\<exists>r \<in> set rules. condition r ctx = Returns True \<and> rule_reason r = Some t \<and> t \<noteq> [] \<and>
         conditionSource r \<noteq> ''() => true''))"
proof -
  have step: "\<exists>recs'. ruleBody r ctx recs = Inr recs' \<and>
         reasons recs' = reasons recs @
           (case rule_reason r of
              None \<Rightarrow> []
            | Some t \<Rightarrow> if t = [] \<or> conditionSource r = ''() => true'' then [] else [t])"
    if "condition r ctx = Returns True"
    using that
    by (auto simp: ruleBody_def push_reason_def always_true_source_def split: option.splits)
  have "set (reasons (analyzeWith rules ctx)) =
      (\<Union>r \<in> set (filter (fires ctx) rules). set (push_reason r []))"
    by (simp add: analyzeWith_def Let_def set_new_Set reasons_applyRules)
  then have res: "t \<in> set (reasons (analyzeWith rules ctx)) \<longleftrightarrow>
      (\<exists>r \<in> set rules. condition r ctx = Returns True \<and> rule_reason r = Some t \<and> t \<noteq> [] \<and>
         conditionSource r \<noteq> ''() => true'')"
    by (auto simp: fires_def push_reason_def always_true_source_def split: option.splits if_splits)
  show ?thesis using step res by blast
qed

text \<open>A rule written \<^verbatim>\<open>(ctx) => true\<close> with a reason: the reason is appended.\<close>

theorem reason_excluded_iff_witness:
  "''because'' \<in> set (reasons (analyzeWith [spoken_rule] ())) \<and>
   (\<exists>recs'. ruleBody spoken_rule () \<lparr>skills = [], agents = [], hooks = [], reasons = []\<rparr> = Inr recs'
       \<and> reasons recs' = [''because''])"
  using reason_excluded_iff_empty_or_always_true
    [of spoken_rule "()" "\<lparr>skills = [], agents = [], hooks = [], reasons = []\<rparr>" "''because''" "[spoken_rule]"]
  by (simp add: spoken_rule_def)

section \<open>Properties of the diff summary\<close>



section \<open>Properties of the scan\<close>

text \<open>
  Claim C7. On an empty directory the scan returns, with the project type
  \<^verbatim>\<open>general\<close>, every list empty and every flag false; the name is the base name of the
  path.
\<close>

theorem scan_empty_directory:
  "scanProject pf basename (Dir []) =
     Inr \<lparr>sr_name = JString basename, sr_languages = [], sr_frameworks = [], sr_databases = [],
          sr_architecture = [], sr_projectType = ''general'', sr_techStack = [],
          sr_hasTests = False, sr_hasDocker = False, sr_hasCI = False, sr_hasApi = False,
          sr_existingClaude = False, sr_existingSkills = [], sr_existingAgents = [],
          sr_existingHooks = []\<rparr>"
proof -
  have no_file: "\<not> fileExists (Dir []) (s # ss)" for s ss
    by (simp add: fileExists_def)
  have no_dir: "\<not> dirExists (Dir []) (s # ss)" for s ss
    by (simp add: dirExists_def)
  have no_glob: "glob pf (Dir []) pattern limit = []" for pattern limit
    by (simp add: glob_def)
  have node_part: "scanNode pf (Dir []) d = Inr d" for d
    by (simp add: scanNode_def no_file)
  have dotnet: "scanDotnet pf (Dir []) d = Inr d" for d
    by (simp add: scanDotnet_def no_glob)
  have cli: "scanCli pf (Dir []) d = Inr d" for d
    by (simp add: scanCli_def no_file)
  have langs: "steps [scanPython (Dir []), scanGo (Dir []), scanRust (Dir []), scanJava (Dir []),
                  scanArchitecture (Dir [])] d = d" for d
    by (simp add: steps_def scanPython_def scanGo_def scanRust_def scanJava_def
          scanArchitecture_def ifThen_def no_file no_dir)
  have rest: "steps [scanInfrastructure (Dir []), scanDatabases pf (Dir []),
                         scanExistingClaude (Dir []), deduplicate] d = deduplicate d" for d
    by (simp add: steps_def scanInfrastructure_def scanDatabases_def scanExistingClaude_def
          ifThen_def no_file no_dir no_glob)
  have dedup: "deduplicate (initialDetected basename) = initialDetected basename"
    by (simp add: deduplicate_def initialDetected_def new_Set_def add_all_def)
  have "scanProject pf basename (Dir []) = Inr (initialDetected basename)"
    by (simp add: scanProject_def andThen_def node_part dotnet cli langs rest dedup)
  then show ?thesis by (simp add: initialDetected_def)
qed

text \<open>
  Claim C6 does not hold of the code: when \<^verbatim>\<open>package.json\<close> exists and its text does not
  parse, the SyntaxError of \<^verbatim>\<open>readJson\<close> leaves \<^const>\<open>scanNode\<close> and the scan is rejected,
  whatever else the directory holds.
\<close>

theorem scan_rejects_unparsable_manifest:
  "lookup root [''package.json''] = Some (File content) \<Longrightarrow> JSON_parse pf content = None \<Longrightarrow>
   scanProject pf basename root = Inl SyntaxError"
  by (simp add: scanProject_def scanNode_def fileExists_def readJson_def readFile_def andThen_def)

text \<open>The project whose manifest is the text \<^verbatim>\<open>{\<close>.\<close>

theorem scan_rejects_unparsable_manifest_witness:
  "scanProject rejecting_platform ''app'' broken_manifest_project = Inl SyntaxError"
  using scan_rejects_unparsable_manifest
    [of broken_manifest_project "''{''" rejecting_platform "''app''"]
  by (simp add: broken_manifest_project_def rejecting_platform_def)

section \<open>Properties of the backup cleanup\<close>








section \<open>Properties of the merge\<close>

subsection \<open>The map of existing components and the loop over the incoming names\<close>


lemma keys_map_set:
  "map fst (map_set k v m) = (if k \<in> set (map fst m) then map fst m else map fst m @ [k])"
proof (induction m)
  case Nil
  show ?case by simp
next
  case (Cons kv m)
  obtain k' v' where kv: "kv = (k', v')" by (cases kv)
  show ?case
  proof (cases "k' = k")
    case True
    then show ?thesis by (simp add: kv)
  next
    case False
    then show ?thesis using Cons.IH by (simp add: kv)
  qed
qed

lemma distinct_map_set: "distinct (map fst m) \<Longrightarrow> distinct (map fst (map_set k v m))"
  by (simp add: keys_map_set)

lemma index_fold_distinct:
  "distinct (map fst m) \<Longrightarrow>
   distinct (map fst (foldl (\<lambda>m item. map_set (sc_name item) item m) m xs))"
  by (induction xs arbitrary: m) (simp_all add: distinct_map_set)


lemma distinct_indexExisting: "distinct (map fst (indexExisting existing))"
  by (simp add: indexExisting_def index_fold_distinct)










subsection \<open>Reading the skills back from disk\<close>








subsection \<open>The section under the first marker\<close>






subsection \<open>Claims about the merge\<close>







section \<open>Properties of the extraction of custom sections\<close>












lemma rules_before_project_spans:
  "markerSpans rules_before_project =
     [(15, ''## Project-Specific\<newline>b''), (0, ''## Our Rules\<newline>a'')]"
  by code_simp




end
